theory Spec2Isabelle
  imports Complex_Main "HOL-Library.Sublist"
begin

section \<open>The Piper engine of RealtimeTTS\<close>

text \<open>
  A shallow embedding of \<^verbatim>\<open>RealtimeTTS/engines/piper_engine.py\<close>: the voice
  descriptor \<^verbatim>\<open>PiperVoice\<close> and the engine adapter \<^verbatim>\<open>PiperEngine\<close>.
  The file system, the printed lines and the calls of \<^verbatim>\<open>subprocess.run\<close> are
  an explicit world that every operation takes and returns. What the Python library and
  the operating system decide (the JSON parser, the WAV reader, the temporary name, the
  external process) is a parameter, so every theorem holds for each behaviour of them.
\<close>

subsection \<open>Values of the Python program\<close>

type_synonym path = string
type_synonym bytes = string

text \<open>
  A Python float: a finite value (every double is a rational), the negative zero, the two
  infinities, or a NaN. Comparison with \<^verbatim>\<open>1.0\<close> is inequality of these values: a
  NaN and the infinities differ from \<^verbatim>\<open>1.0\<close>, as in Python.
\<close>

datatype pyfloat = Finite rat | NegZero | PosInf | NegInf | NaN

text \<open>
  What \<^verbatim>\<open>json.load\<close> returns: \<^verbatim>\<open>None\<close>, a bool, an int, a float, a str, a list
  or a dict. A dict is an association list read with \<open>map_of\<close>.
\<close>

datatype json =
    JNull
  | JBool bool
  | JInt int
  | JFloat pyfloat
  | JStr string
  | JArr "json list"
  | JObj "(string \<times> json) list"

text \<open>
  The exceptions the modelled operations raise; all of them are subclasses of
  \<^verbatim>\<open>Exception\<close>. \<open>CalledProcessError\<close> carries the return code and the captured
  standard error.
\<close>

datatype exn =
    FileNotFoundError
  | FileExistsError
  | IsADirectoryError
  | PermissionError
  | OSError
  | CalledProcessError int bytes
  | wave_Error
  | EOFError
  | JSONDecodeError
  | UnicodeDecodeError
  | UnicodeEncodeError
  | TypeError
  | ValueError
  | KeyError
  | OverflowError

text \<open>
  The outcome of a call: it returns a value, raises, or never returns (the external
  process has no timeout, so a process that hangs blocks the caller for ever).
\<close>

datatype 'a outcome = Returned 'a | Raised exn | Never_returns

definition and_then :: "exn + 'a \<Rightarrow> ('a \<Rightarrow> exn + 'b) \<Rightarrow> exn + 'b" where
  "and_then m f = (case m of Inl e \<Rightarrow> Inl e | Inr a \<Rightarrow> f a)"

subsection \<open>The file system and the world\<close>

datatype node = Dir | File bytes

record filesystem =
  nodes :: "path \<rightharpoonup> node"
  read_denied :: "path set"
  remove_denied :: "path set"

definition exists_path :: "filesystem \<Rightarrow> path \<Rightarrow> bool" where
  "exists_path fs p = (nodes fs p \<noteq> None)"

definition isfile :: "filesystem \<Rightarrow> path \<Rightarrow> bool" where
  "isfile fs p = (case nodes fs p of Some (File c) \<Rightarrow> True | _ \<Rightarrow> False)"

text \<open>\<^verbatim>\<open>open(p, 'r')\<close> followed by reading the whole file.\<close>

definition open_read :: "filesystem \<Rightarrow> path \<Rightarrow> exn + bytes" where
  "open_read fs p =
     (case nodes fs p of
        None \<Rightarrow> Inl FileNotFoundError
      | Some Dir \<Rightarrow> Inl IsADirectoryError
      | Some (File c) \<Rightarrow> if p \<in> read_denied fs then Inl PermissionError else Inr c)"

definition os_remove :: "filesystem \<Rightarrow> path \<Rightarrow> exn + filesystem" where
  "os_remove fs p =
     (case nodes fs p of
        None \<Rightarrow> Inl FileNotFoundError
      | Some Dir \<Rightarrow> Inl IsADirectoryError
      | Some (File c) \<Rightarrow>
          if p \<in> remove_denied fs then Inl PermissionError
          else Inr (fs\<lparr>nodes := (nodes fs)(p := None)\<rparr>))"

text \<open>
  The lines \<^verbatim>\<open>print\<close> writes, with the values the source interpolates.
\<close>

datatype log_line =
    Voice_model_not_set
  | Executable_not_found path
  | Error_running_Piper int bytes
  | Error_processing_WAV path
  | Unexpected_error exn

record world =
  files :: filesystem
  printed :: "log_line list"
  invocations :: "(string list \<times> bytes) list"

text \<open>
  What the program does not decide itself. \<open>tmp_choice\<close> is the name
  \<^verbatim>\<open>NamedTemporaryFile\<close> picks, without its suffix, or its failure; \<open>subprocess_run\<close>
  is the external process on an argument list, its standard input and the file system:
  it fails to start, it never exits, or it exits with a return code, its two captured
  streams and the file system it leaves. \<open>print_error\<close> is the exception that writing a
  line to the standard output raises, if any: the stream encodes the text with its own
  encoding, and a path, the captured standard error or the message of an exception can
  hold characters that this encoding lacks.
\<close>

datatype completed = Completed int bytes bytes filesystem

record platform =
  json_load :: "bytes \<Rightarrow> exn + json"
  int_of_str :: "string \<Rightarrow> exn + int"
  str_of_float :: "pyfloat \<Rightarrow> string"
  encode_utf8 :: "string \<Rightarrow> exn + bytes"
  tmp_choice :: "filesystem \<Rightarrow> exn + path"
  subprocess_run :: "string list \<Rightarrow> bytes \<Rightarrow> filesystem \<Rightarrow> completed outcome"
  wave_readframes :: "bytes \<Rightarrow> exn + bytes"
  print_error :: "log_line \<Rightarrow> exn option"

text \<open>
  \<^verbatim>\<open>print(line)\<close>. The standard output is an open text stream, so the line of the
  guard, a fixed ASCII literal, is always written; every other line interpolates data and
  is written unless the stream refuses it.
\<close>

definition py_print :: "platform \<Rightarrow> log_line \<Rightarrow> world \<Rightarrow> exn + world" where
  "py_print P line w =
     (case (if line = Voice_model_not_set then None else print_error P line) of
        None \<Rightarrow> Inr (w\<lparr>printed := printed w @ [line]\<rparr>)
      | Some e \<Rightarrow> Inl e)"

subsection \<open>Python's operators on parsed JSON\<close>

text \<open>\<^verbatim>\<open>k in x\<close> for a str \<open>k\<close>: a key of a dict, an element of a list, a substring
  of a str; any other operand raises \<^verbatim>\<open>TypeError\<close>.\<close>

fun py_in :: "string \<Rightarrow> json \<Rightarrow> exn + bool" where
  "py_in k (JObj kvs) = Inr (map_of kvs k \<noteq> None)"
| "py_in k (JArr xs) = Inr (JStr k \<in> set xs)"
| "py_in k (JStr s) = Inr (sublist k s)"
| "py_in k _ = Inl TypeError"

text \<open>\<^verbatim>\<open>x[k]\<close> for a str \<open>k\<close>.\<close>

fun py_getitem :: "json \<Rightarrow> string \<Rightarrow> exn + json" where
  "py_getitem (JObj kvs) k = (case map_of kvs k of None \<Rightarrow> Inl KeyError | Some v \<Rightarrow> Inr v)"
| "py_getitem _ k = Inl TypeError"

text \<open>\<^verbatim>\<open>int(x)\<close>: a float is truncated towards zero.\<close>

fun py_int :: "platform \<Rightarrow> json \<Rightarrow> exn + int" where
  "py_int P (JInt n) = Inr n"
| "py_int P (JBool b) = Inr (if b then 1 else 0)"
| "py_int P (JFloat (Finite q)) = Inr (if 0 \<le> q then \<lfloor>q\<rfloor> else \<lceil>q\<rceil>)"
| "py_int P (JFloat NegZero) = Inr 0"
| "py_int P (JFloat PosInf) = Inl OverflowError"
| "py_int P (JFloat NegInf) = Inl OverflowError"
| "py_int P (JFloat NaN) = Inl ValueError"
| "py_int P (JStr s) = int_of_str P s"
| "py_int P _ = Inl TypeError"

subsection \<open>PiperVoice\<close>

record PiperVoice =
  model_file :: string
  config_file :: "string option"
  native_sample_rate :: int

text \<open>Lines 25 to 28: the body of the \<^verbatim>\<open>with\<close> block, after \<^verbatim>\<open>json.load\<close>.
  \<open>None\<close> is the path on which no branch assigns.\<close>

definition read_sample_rate :: "platform \<Rightarrow> json \<Rightarrow> exn + int option" where
  "read_sample_rate P config_data =
     and_then (py_in ''audio'' config_data) (\<lambda>has_audio.
     and_then (if has_audio
               then and_then (py_getitem config_data ''audio'') (py_in ''sample_rate'')
               else Inr False) (\<lambda>nested.
     if nested then
       and_then (py_getitem config_data ''audio'') (\<lambda>audio.
       and_then (py_getitem audio ''sample_rate'') (\<lambda>v.
       and_then (py_int P v) (\<lambda>n. Inr (Some n))))
     else
       and_then (py_in ''sample_rate'' config_data) (\<lambda>top.
       if top then
         and_then (py_getitem config_data ''sample_rate'') (\<lambda>v.
         and_then (py_int P v) (\<lambda>n. Inr (Some n)))
       else Inr None)))"

text \<open>Lines 23 to 28: the \<^verbatim>\<open>try\<close> block.\<close>

definition load_config :: "platform \<Rightarrow> filesystem \<Rightarrow> path \<Rightarrow> exn + int option" where
  "load_config P fs p =
     and_then (open_read fs p) (\<lambda>content.
     and_then (json_load P content) (read_sample_rate P))"

definition PiperVoice_init ::
  "platform \<Rightarrow> filesystem \<Rightarrow> string \<Rightarrow> string option \<Rightarrow> PiperVoice outcome" where
  "PiperVoice_init P fs mf cf =
     (let resolved =
            (case cf of
               None \<Rightarrow> (let possible_json = mf @ ''.json''
                        in if isfile fs possible_json then Some possible_json else None)
             | Some c \<Rightarrow> Some c);
          self = \<lparr>model_file = mf, config_file = resolved, native_sample_rate = 24000\<rparr>
      in case resolved of
           None \<Rightarrow> Returned self
         | Some c \<Rightarrow>
             if c \<noteq> [] \<and> exists_path fs c then
               (case load_config P fs c of
                  Inr (Some n) \<Rightarrow> Returned (self\<lparr>native_sample_rate := n\<rparr>)
                | Inr None \<Rightarrow> Returned self
                | Inl e \<Rightarrow> Returned self)
             else Returned self)"

subsection \<open>PiperEngine\<close>

datatype sample_format = paFloat32 | paInt32 | paInt24 | paInt16 | paInt8 | paUInt8

record PiperEngine =
  piper_path :: string
  voice :: "PiperVoice option"
  length_scale :: pyfloat
  queue :: "bytes list"

definition PiperEngine_init ::
  "(string \<rightharpoonup> string) \<Rightarrow> string \<Rightarrow> string option \<Rightarrow> PiperVoice option \<Rightarrow> pyfloat
     \<Rightarrow> PiperEngine" where
  "PiperEngine_init environ os_name pp v ls =
     \<lparr>piper_path =
        (case pp of
           None \<Rightarrow>
             (let env_path = environ ''PIPER_PATH'';
                  default_exe = (if os_name = ''nt'' then ''piper.exe'' else ''piper'')
              in case env_path of
                   None \<Rightarrow> default_exe
                 | Some e \<Rightarrow> if e \<noteq> [] then e else default_exe)
         | Some p \<Rightarrow> p),
      voice = v, length_scale = ls, queue = []\<rparr>"

definition get_stream_info :: "PiperEngine \<Rightarrow> sample_format \<times> int \<times> int" where
  "get_stream_info self =
     (let rate = (case voice self of None \<Rightarrow> 24000 | Some v \<Rightarrow> native_sample_rate v)
      in (paInt16, 1, 24000))"

definition set_voice :: "PiperEngine \<Rightarrow> PiperVoice \<Rightarrow> PiperEngine" where
  "set_voice self v = self\<lparr>voice := Some v\<rparr>"

subsection \<open>synthesize\<close>

text \<open>
  \<^verbatim>\<open>tempfile.NamedTemporaryFile(suffix=".wav", delete=False)\<close>: an empty file is
  created at a name that did not exist, and is left on disk when the block closes it.
\<close>

definition NamedTemporaryFile :: "platform \<Rightarrow> filesystem \<Rightarrow> exn + path \<times> filesystem" where
  "NamedTemporaryFile P fs =
     and_then (tmp_choice P fs) (\<lambda>stem.
       let name = stem @ ''.wav''
       in if exists_path fs name then Inl FileExistsError
          else Inr (name, fs\<lparr>nodes := (nodes fs)(name \<mapsto> File [])\<rparr>))"

text \<open>Lines 71 to 81.\<close>

definition build_cmd_list ::
  "platform \<Rightarrow> PiperEngine \<Rightarrow> PiperVoice \<Rightarrow> filesystem \<Rightarrow> path \<Rightarrow> string list" where
  "build_cmd_list P self v fs output_wav_path =
     [piper_path self, ''-m'', model_file v, ''-f'', output_wav_path]
     @ (case config_file v of
          None \<Rightarrow> []
        | Some c \<Rightarrow> if c \<noteq> [] \<and> exists_path fs c then [''-c'', c] else [])
     @ (if length_scale self \<noteq> Finite 1
        then [''--length_scale'', str_of_float P (length_scale self)] else [])"

text \<open>Lines 92 and 93: \<^verbatim>\<open>wave.open\<close> and \<^verbatim>\<open>readframes\<close>.\<close>

definition wave_open_read :: "platform \<Rightarrow> filesystem \<Rightarrow> path \<Rightarrow> exn + bytes" where
  "wave_open_read P fs p = and_then (open_read fs p) (wave_readframes P)"

text \<open>
  Lines 68 to 95, the \<^verbatim>\<open>try\<close> block. The result holds \<^verbatim>\<open>output_wav_path\<close> as it
  is when the block is left (still empty when no name was allocated), the outcome of the
  block, the engine and the world.
\<close>

definition synthesize_try ::
  "platform \<Rightarrow> PiperEngine \<Rightarrow> PiperVoice \<Rightarrow> world \<Rightarrow> string
     \<Rightarrow> path \<times> bool outcome \<times> PiperEngine \<times> world" where
  "synthesize_try P self v w text =
     (case NamedTemporaryFile P (files w) of
        Inl e \<Rightarrow> ([], Raised e, self, w)
      | Inr (output_wav_path, fs1) \<Rightarrow>
          (let w1 = w\<lparr>files := fs1\<rparr>;
               cmd_list = build_cmd_list P self v fs1 output_wav_path
           in case encode_utf8 P text of
                Inl e \<Rightarrow> (output_wav_path, Raised e, self, w1)
              | Inr input \<Rightarrow>
                  (let w2 = w1\<lparr>invocations := invocations w1 @ [(cmd_list, input)]\<rparr>
                   in case subprocess_run P cmd_list input fs1 of
                        Never_returns \<Rightarrow> (output_wav_path, Never_returns, self, w2)
                      | Raised e \<Rightarrow> (output_wav_path, Raised e, self, w2)
                      | Returned (Completed returncode out err fs2) \<Rightarrow>
                          (let w3 = w2\<lparr>files := fs2\<rparr>
                           in if returncode \<noteq> 0
                              then (output_wav_path, Raised (CalledProcessError returncode err),
                                    self, w3)
                              else case wave_open_read P fs2 output_wav_path of
                                     Inl e \<Rightarrow> (output_wav_path, Raised e, self, w3)
                                   | Inr audio_data \<Rightarrow>
                                       (output_wav_path, Returned True,
                                        self\<lparr>queue := queue self @ [audio_data]\<rparr>, w3)))))"

text \<open>Lines 97 to 108: the line each \<^verbatim>\<open>except\<close> clause prints before it returns
  \<^verbatim>\<open>False\<close>. An exception that the \<^verbatim>\<open>print\<close> of a clause raises is caught by no
  other clause: it leaves \<^verbatim>\<open>synthesize\<close> once the \<^verbatim>\<open>finally\<close> block has run.\<close>

fun except_line :: "PiperEngine \<Rightarrow> path \<Rightarrow> exn \<Rightarrow> log_line" where
  "except_line self output_wav_path FileNotFoundError = Executable_not_found (piper_path self)"
| "except_line self output_wav_path (CalledProcessError rc err) = Error_running_Piper rc err"
| "except_line self output_wav_path wave_Error = Error_processing_WAV output_wav_path"
| "except_line self output_wav_path e = Unexpected_error e"

text \<open>Lines 109 to 114: the \<^verbatim>\<open>finally\<close> block.\<close>

definition finally_remove :: "filesystem \<Rightarrow> path \<Rightarrow> filesystem" where
  "finally_remove fs output_wav_path =
     (if output_wav_path \<noteq> [] \<and> isfile fs output_wav_path
      then (case os_remove fs output_wav_path of Inl e \<Rightarrow> fs | Inr fs' \<Rightarrow> fs')
      else fs)"

definition synthesize ::
  "platform \<Rightarrow> PiperEngine \<Rightarrow> world \<Rightarrow> string \<Rightarrow> bool outcome \<times> PiperEngine \<times> world" where
  "synthesize P self w text =
     (let voice_not_set =
            (case py_print P Voice_model_not_set w of
               Inl e \<Rightarrow> (Raised e, self, w)
             | Inr w' \<Rightarrow> (Returned False, self, w'))
      in case voice self of
           None \<Rightarrow> voice_not_set
         | Some v \<Rightarrow>
             if model_file v = [] then voice_not_set
             else
               (case synthesize_try P self v w text of
                  (output_wav_path, Never_returns, self', w') \<Rightarrow> (Never_returns, self', w')
                | (output_wav_path, Returned b, self', w') \<Rightarrow>
                    (Returned b, self',
                     w'\<lparr>files := finally_remove (files w') output_wav_path\<rparr>)
                | (output_wav_path, Raised e, self', w') \<Rightarrow>
                    (case py_print P (except_line self output_wav_path e) w' of
                       Inl e' \<Rightarrow>
                         (Raised e', self',
                          w'\<lparr>files := finally_remove (files w') output_wav_path\<rparr>)
                     | Inr w'' \<Rightarrow>
                         (Returned False, self',
                          w''\<lparr>files := finally_remove (files w'') output_wav_path\<rparr>))))"

subsection \<open>A stub environment\<close>

text \<open>
  Concrete inputs on which the theorems below are exercised: a platform whose JSON parser
  returns a given value, a stub executable that exits with a given return code and, on
  zero, writes a WAV file to the path that follows \<^verbatim>\<open>-f\<close>, an executable that is
  missing, a disk that holds the sidecar file of the model, and an engine on it. The
  standard output of the stub platform writes every line; \<open>ascii_stdout\<close> is a standard
  output that encodes ASCII only, \<open>piper_garbled\<close> an executable that exits with code
  1 after writing the byte \<^verbatim>\<open>0xFF\<close> to its standard error, and \<open>garbled_platform\<close>
  the stub platform with both.
\<close>

definition stub_platform ::
  "json option \<Rightarrow> (string list \<Rightarrow> bytes \<Rightarrow> filesystem \<Rightarrow> completed outcome) \<Rightarrow> platform" where
  "stub_platform cfg run =
     \<lparr>json_load = (\<lambda>content. case cfg of None \<Rightarrow> Inl JSONDecodeError | Some cd \<Rightarrow> Inr cd),
      int_of_str = (\<lambda>s. if s = ''22050'' then Inr 22050 else Inl ValueError),
      str_of_float = (\<lambda>x. if x = Finite (4 / 5) then ''0.8'' else ''1.0''),
      encode_utf8 = Inr,
      tmp_choice = (\<lambda>fs. Inr ''/tmp/tmpk3v9''),
      subprocess_run = run,
      wave_readframes =
        (\<lambda>content. if take 4 content = ''RIFF'' then Inr (drop 4 content) else Inl wave_Error),
      print_error = (\<lambda>line. None)\<rparr>"

definition piper_stub :: "int \<Rightarrow> string list \<Rightarrow> bytes \<Rightarrow> filesystem \<Rightarrow> completed outcome" where
  "piper_stub rc cmd input fs =
     Returned (Completed rc [] ''diagnostic''
       (if rc = 0 then fs\<lparr>nodes := (nodes fs)(cmd ! 4 \<mapsto> File ''RIFFpcm'')\<rparr> else fs))"

definition missing_executable ::
  "string list \<Rightarrow> bytes \<Rightarrow> filesystem \<Rightarrow> completed outcome" where
  "missing_executable cmd input fs = Raised FileNotFoundError"

definition piper_garbled ::
  "string list \<Rightarrow> bytes \<Rightarrow> filesystem \<Rightarrow> completed outcome" where
  "piper_garbled cmd input fs = Returned (Completed 1 [] [CHR 0xFF] fs)"

definition ascii_stdout :: "log_line \<Rightarrow> exn option" where
  "ascii_stdout line =
     (case line of
        Error_running_Piper rc err \<Rightarrow>
          if list_all (\<lambda>c. of_char c < (128::nat)) err then None else Some UnicodeEncodeError
      | _ \<Rightarrow> None)"

definition garbled_platform :: platform where
  "garbled_platform = (stub_platform None piper_garbled)\<lparr>print_error := ascii_stdout\<rparr>"

definition idle :: "string list \<Rightarrow> bytes \<Rightarrow> filesystem \<Rightarrow> completed outcome" where
  "idle cmd input fs = Never_returns"

definition sidecar_fs :: filesystem where
  "sidecar_fs =
     \<lparr>nodes = [''en.onnx.json'' \<mapsto> File ''cfg''], read_denied = {}, remove_denied = {}\<rparr>"

definition world0 :: world where
  "world0 = \<lparr>files = sidecar_fs, printed = [], invocations = []\<rparr>"

definition voice0 :: PiperVoice where
  "voice0 =
     \<lparr>model_file = ''en.onnx'', config_file = Some ''en.onnx.json'',
      native_sample_rate = 22050\<rparr>"

definition engine0 :: "pyfloat \<Rightarrow> PiperEngine" where
  "engine0 ls = \<lparr>piper_path = ''piper'', voice = Some voice0, length_scale = ls, queue = []\<rparr>"

lemmas all_splits =
  option.splits sum.splits prod.splits outcome.splits completed.splits if_splits

lemmas stub_defs =
  stub_platform_def piper_stub_def missing_executable_def sidecar_fs_def world0_def
  voice0_def engine0_def py_print_def

lemmas fs_defs =
  NamedTemporaryFile_def and_then_def exists_path_def isfile_def open_read_def
  os_remove_def wave_open_read_def build_cmd_list_def finally_remove_def Let_def

section \<open>The stream format\<close>

text \<open>
  C1. For every engine state, \<^verbatim>\<open>get_stream_info()\<close> returns the fixed triple
  (16-bit signed integer format, 1 channel, 24000 Hz), whichever voice is set and whatever
  the native sample rate detected for that voice.
\<close>

theorem get_stream_info_fixed:
  "get_stream_info self = (paInt16, 1, 24000) \<and>
   get_stream_info (self\<lparr>voice := Some (v\<lparr>native_sample_rate := r\<rparr>)\<rparr>) = (paInt16, 1, 24000)"
  by (simp add: get_stream_info_def Let_def)

section \<open>Synthesis\<close>

text \<open>
  C2. For every text: when a voice with a model path is set, the temporary name is
  allocated, the text encodes, the external process exits with code zero and leaves at
  the temporary path a readable file that the WAV reader accepts, \<^verbatim>\<open>synthesize\<close>
  returns \<^verbatim>\<open>True\<close> and the queue is the old queue followed by exactly one buffer,
  the frames of that file.
\<close>

theorem synthesize_success:
  assumes "voice self = Some v" and "model_file v \<noteq> []"
    and "NamedTemporaryFile P (files w) = Inr (p, fs1)"
    and "encode_utf8 P text = Inr input"
    and "subprocess_run P (build_cmd_list P self v fs1 p) input fs1
           = Returned (Completed 0 out err fs2)"
    and "nodes fs2 p = Some (File content)" and "p \<notin> read_denied fs2"
    and "wave_readframes P content = Inr frames"
  shows "fst (synthesize P self w text) = Returned True \<and>
         queue (fst (snd (synthesize P self w text))) = queue self @ [frames]"
  using assms
  by (simp add: synthesize_def synthesize_try_def Let_def wave_open_read_def open_read_def
      and_then_def)

theorem synthesize_success_witness:
  "fst (synthesize (stub_platform None (piper_stub 0)) (engine0 (Finite 1)) world0 ''hello'')
     = Returned True \<and>
   queue (fst (snd (synthesize (stub_platform None (piper_stub 0)) (engine0 (Finite 1)) world0
     ''hello''))) = [''pcm'']"
  using synthesize_success [of "engine0 (Finite 1)" voice0 "stub_platform None (piper_stub 0)"
      world0 "''/tmp/tmpk3v9.wav''"
      "sidecar_fs\<lparr>nodes := (nodes sidecar_fs)(''/tmp/tmpk3v9.wav'' \<mapsto> File [])\<rparr>"
      "''hello''" "''hello''" "[]" "''diagnostic''"
      "sidecar_fs\<lparr>nodes := (nodes sidecar_fs)(''/tmp/tmpk3v9.wav'' \<mapsto> File ''RIFFpcm'')\<rparr>"
      "''RIFFpcm''" "''pcm''"]
  by (simp add: stub_defs fs_defs)

subsection \<open>An exception that leaves \<^verbatim>\<open>synthesize\<close>\<close>

text \<open>
  C3. The claim is that for every text and every failure (the executable is missing, the
  exit code is not zero, the WAV file cannot be read, any other error) \<^verbatim>\<open>synthesize\<close>
  never lets an exception reach its caller and returns \<^verbatim>\<open>False\<close>. The code does not do
  so on the input below: the stub executable exits with code 1 after writing the byte
  \<^verbatim>\<open>0xFF\<close> to its standard error, and the standard output encodes ASCII only. The
  \<^verbatim>\<open>except\<close> clause of line 100 decodes the captured bytes with
  \<^verbatim>\<open>errors='replace'\<close> and prints them; the \<^verbatim>\<open>print\<close> raises
  \<^verbatim>\<open>UnicodeEncodeError\<close> inside the clause, no other clause catches it, the
  \<^verbatim>\<open>finally\<close> block removes the temporary file, and the exception reaches the caller.
\<close>

theorem handler_print_escapes:
  "subprocess_run garbled_platform
     [''piper'', ''-m'', ''en.onnx'', ''-f'', ''/tmp/tmpk3v9.wav'', ''-c'', ''en.onnx.json'']
     ''hello'' (sidecar_fs\<lparr>nodes := (nodes sidecar_fs)(''/tmp/tmpk3v9.wav'' \<mapsto> File [])\<rparr>)
     = Returned (Completed 1 [] [CHR 0xFF]
         (sidecar_fs\<lparr>nodes := (nodes sidecar_fs)(''/tmp/tmpk3v9.wav'' \<mapsto> File [])\<rparr>)) \<and>
   fst (synthesize garbled_platform (engine0 (Finite 1)) world0 ''hello'') = Raised UnicodeEncodeError \<and>
   queue (fst (snd (synthesize garbled_platform (engine0 (Finite 1)) world0 ''hello''))) = [] \<and>
   \<not> isfile (files (snd (snd (synthesize garbled_platform (engine0 (Finite 1)) world0 ''hello'')))) ''/tmp/tmpk3v9.wav''"
  by (simp add: synthesize_def synthesize_try_def stub_defs fs_defs garbled_platform_def
      piper_garbled_def ascii_stdout_def)

text \<open>
  The \<^verbatim>\<open>print\<close> of an \<^verbatim>\<open>except\<close> clause is the only way out for an exception:
  whatever \<^verbatim>\<open>synthesize\<close> raises was raised by printing the line of an exception that
  the \<^verbatim>\<open>try\<close> block had raised. On a standard output that writes every line, and when
  the external process call comes back, \<^verbatim>\<open>synthesize\<close> returns a boolean that is
  \<^verbatim>\<open>True\<close> exactly when every step succeeded.
\<close>

lemma synthesize_raises_only_from_print:
  assumes "fst (synthesize P self w text) = Raised e'"
  shows "\<exists>v p e self' w'. voice self = Some v \<and> model_file v \<noteq> [] \<and>
           synthesize_try P self v w text = (p, Raised e, self', w') \<and>
           print_error P (except_line self p e) = Some e'"
  using assms
  by (auto simp: synthesize_def py_print_def Let_def split: all_splits)

lemma synthesize_boolean_when_print_succeeds:
  assumes "\<forall>line. print_error P line = None"
    and "\<forall>cmd input fs. subprocess_run P cmd input fs \<noteq> Never_returns"
  shows "fst (synthesize P self w text) =
       Returned (\<exists>v p fs1 input out err fs2 audio_data.
         voice self = Some v \<and> model_file v \<noteq> [] \<and>
         NamedTemporaryFile P (files w) = Inr (p, fs1) \<and>
         encode_utf8 P text = Inr input \<and>
         subprocess_run P (build_cmd_list P self v fs1 p) input fs1
           = Returned (Completed 0 out err fs2) \<and>
         wave_open_read P fs2 p = Inr audio_data)"
  using assms
  by (auto simp: synthesize_def synthesize_try_def py_print_def Let_def split: all_splits)

subsection \<open>Failures and the queue\<close>

text \<open>
  C4. Whenever \<^verbatim>\<open>synthesize\<close> returns \<^verbatim>\<open>False\<close>, on whatever error path, the
  output queue is the queue before the call: nothing is enqueued for that utterance.
\<close>

theorem failure_enqueues_nothing:
  "fst (synthesize P self w text) = Returned False \<Longrightarrow>
     queue (fst (snd (synthesize P self w text))) = queue self"
  by (auto simp: synthesize_def synthesize_try_def py_print_def Let_def split: all_splits)

theorem failure_enqueues_nothing_witness:
  "fst (synthesize (stub_platform None (piper_stub 1)) ((engine0 (Finite 1))\<lparr>queue := [''old'']\<rparr>)
     world0 ''hello'') = Returned False \<and>
   queue (fst (snd (synthesize (stub_platform None (piper_stub 1))
     ((engine0 (Finite 1))\<lparr>queue := [''old'']\<rparr>) world0 ''hello''))) = [''old'']"
proof -
  have h: "fst (synthesize (stub_platform None (piper_stub 1))
      ((engine0 (Finite 1))\<lparr>queue := [''old'']\<rparr>) world0 ''hello'') = Returned False"
    by (simp add: synthesize_def synthesize_try_def stub_defs fs_defs)
  from failure_enqueues_nothing [OF h] h show ?thesis
    by (simp add: engine0_def)
qed



text \<open>
  C8. For every call of \<^verbatim>\<open>synthesize\<close> that reaches the external process (a voice
  with a model path, a temporary name, an encodable text), exactly one call is made, and
  its argument list is the executable, \<^verbatim>\<open>-m\<close> with the model path and \<^verbatim>\<open>-f\<close> with
  the temporary path, followed by \<^verbatim>\<open>-c\<close> with the config path if and only if a
  config file is present (the voice names one and it exists on disk when the list is
  built), followed by \<^verbatim>\<open>--length_scale\<close> with the value if and only if
  \<^verbatim>\<open>length_scale\<close> differs from \<^verbatim>\<open>1.0\<close>.
\<close>

theorem synthesize_argument_list:
  assumes "voice self = Some v" and "model_file v \<noteq> []"
    and "NamedTemporaryFile P (files w) = Inr (p, fs1)"
    and "encode_utf8 P text = Inr input"
  shows "invocations (snd (snd (synthesize P self w text))) =
           invocations w @
           [([piper_path self, ''-m'', model_file v, ''-f'', p]
             @ (if \<exists>c. config_file v = Some c \<and> c \<noteq> [] \<and> exists_path fs1 c
                then [''-c'', the (config_file v)] else [])
             @ (if length_scale self \<noteq> Finite 1
                then [''--length_scale'', str_of_float P (length_scale self)] else []),
             input)]"
proof -
  have inv: "invocations (snd (snd (synthesize P self w text))) =
      invocations w @ [(build_cmd_list P self v fs1 p, input)]"
    using assms
    by (simp add: synthesize_def synthesize_try_def py_print_def Let_def
        split: sum.splits outcome.splits completed.splits option.splits)
  have cmd: "build_cmd_list P self v fs1 p =
      [piper_path self, ''-m'', model_file v, ''-f'', p]
      @ (if \<exists>c. config_file v = Some c \<and> c \<noteq> [] \<and> exists_path fs1 c
         then [''-c'', the (config_file v)] else [])
      @ (if length_scale self \<noteq> Finite 1
         then [''--length_scale'', str_of_float P (length_scale self)] else [])"
    by (cases "config_file v") (simp_all add: build_cmd_list_def)
  show ?thesis
    unfolding inv cmd ..
qed

theorem synthesize_argument_list_witness:
  "invocations (snd (snd (synthesize (stub_platform None (piper_stub 0)) (engine0 (Finite 1))
       world0 ''hello''))) =
     [([''piper'', ''-m'', ''en.onnx'', ''-f'', ''/tmp/tmpk3v9.wav'', ''-c'', ''en.onnx.json''],
       ''hello'')] \<and>
   invocations (snd (snd (synthesize (stub_platform None (piper_stub 0))
       ((engine0 (Finite (4 / 5)))\<lparr>voice := Some (voice0\<lparr>config_file := None\<rparr>)\<rparr>)
       world0 ''hello''))) =
     [([''piper'', ''-m'', ''en.onnx'', ''-f'', ''/tmp/tmpk3v9.wav'', ''--length_scale'', ''0.8''],
       ''hello'')]"
  using synthesize_argument_list [of "engine0 (Finite 1)" voice0
      "stub_platform None (piper_stub 0)" world0 "''/tmp/tmpk3v9.wav''"
      "sidecar_fs\<lparr>nodes := (nodes sidecar_fs)(''/tmp/tmpk3v9.wav'' \<mapsto> File [])\<rparr>"
      "''hello''" "''hello''"]
    synthesize_argument_list [of
      "(engine0 (Finite (4 / 5)))\<lparr>voice := Some (voice0\<lparr>config_file := None\<rparr>)\<rparr>"
      "voice0\<lparr>config_file := None\<rparr>"
      "stub_platform None (piper_stub 0)" world0 "''/tmp/tmpk3v9.wav''"
      "sidecar_fs\<lparr>nodes := (nodes sidecar_fs)(''/tmp/tmpk3v9.wav'' \<mapsto> File [])\<rparr>"
      "''hello''" "''hello''"]
  by (simp add: stub_defs fs_defs)

text \<open>
  C9. For every text and every way the \<^verbatim>\<open>try\<close> block ends after the temporary path
  \<open>p\<close> was allocated (it returns or raises; \<open>w'\<close> is the world it leaves): the result of
  \<^verbatim>\<open>synthesize\<close> is the outcome of the block and of the \<^verbatim>\<open>except\<close> clause that
  handles it (\<^verbatim>\<open>True\<close> from the block, \<^verbatim>\<open>False\<close> from the clause, or the exception
  that the \<^verbatim>\<open>print\<close> of the clause raises) whatever the removal does; the removal is
  attempted whenever \<open>p\<close> is a regular file, and its failure leaves the file system as it
  is; so after the call the temporary file exists only if it existed at the end of the
  block and its removal was refused.
\<close>

theorem temp_file_cleanup:
  assumes "voice self = Some v" and "model_file v \<noteq> []"
    and "NamedTemporaryFile P (files w) = Inr (p, fs1)"
    and "synthesize_try P self v w text = (p', r, self', w')"
    and "r \<noteq> Never_returns"
  shows "p' = p \<and>
         fst (synthesize P self w text) =
           (case r of
              Raised e \<Rightarrow>
                (case py_print P (except_line self p e) w' of
                   Inl e' \<Rightarrow> Raised e'
                 | Inr w'' \<Rightarrow> Returned False)
            | _ \<Rightarrow> r) \<and>
         files (snd (snd (synthesize P self w text))) =
           (if isfile (files w') p
            then (case os_remove (files w') p of Inl e \<Rightarrow> files w' | Inr fs' \<Rightarrow> fs')
            else files w') \<and>
         (isfile (files (snd (snd (synthesize P self w text)))) p
            = (isfile (files w') p \<and> p \<in> remove_denied (files w')))"
proof -
  have p: "p' = p" and np: "p \<noteq> []"
    using assms(3,4)
    by (auto simp: synthesize_try_def NamedTemporaryFile_def and_then_def Let_def
        split: all_splits)
  have res: "fst (synthesize P self w text) =
           (case r of
              Raised e \<Rightarrow>
                (case py_print P (except_line self p e) w' of
                   Inl e' \<Rightarrow> Raised e'
                 | Inr w'' \<Rightarrow> Returned False)
            | _ \<Rightarrow> r)"
    using assms(1,2,4,5) p
    by (cases r) (auto simp: synthesize_def Let_def split: sum.splits)
  have fs: "files (snd (snd (synthesize P self w text))) = finally_remove (files w') p"
    using assms(1,2,4,5) p
    by (cases r) (auto simp: synthesize_def py_print_def Let_def split: sum.splits option.splits)
  have gone: "isfile (finally_remove (files w') p) p
      = (isfile (files w') p \<and> p \<in> remove_denied (files w'))"
    using np
    by (auto simp: finally_remove_def os_remove_def isfile_def split: option.splits node.splits)
  show ?thesis
    using p res fs gone np by (simp add: finally_remove_def)
qed

theorem temp_file_cleanup_witness:
  "fst (synthesize (stub_platform None (piper_stub 1)) (engine0 (Finite 1)) world0 ''hello'')
     = Returned False \<and>
   \<not> isfile (files (snd (snd (synthesize (stub_platform None (piper_stub 1)) (engine0 (Finite 1))
       world0 ''hello'')))) ''/tmp/tmpk3v9.wav'' \<and>
   fst (synthesize (stub_platform None (piper_stub 0)) (engine0 (Finite 1))
       (world0\<lparr>files := sidecar_fs\<lparr>remove_denied := {''/tmp/tmpk3v9.wav''}\<rparr>\<rparr>) ''hello'')
     = Returned True \<and>
   isfile (files (snd (snd (synthesize (stub_platform None (piper_stub 0)) (engine0 (Finite 1))
       (world0\<lparr>files := sidecar_fs\<lparr>remove_denied := {''/tmp/tmpk3v9.wav''}\<rparr>\<rparr>) ''hello''))))
     ''/tmp/tmpk3v9.wav''"
  using temp_file_cleanup [where self = "engine0 (Finite 1)" and v = voice0
      and P = "stub_platform None (piper_stub 1)" and w = world0
      and p = "''/tmp/tmpk3v9.wav''"
      and ?fs1.0 = "sidecar_fs\<lparr>nodes := (nodes sidecar_fs)(''/tmp/tmpk3v9.wav'' \<mapsto> File [])\<rparr>"
      and ?text = "''hello''"
      and p' = "fst (synthesize_try (stub_platform None (piper_stub 1)) (engine0 (Finite 1))
                 voice0 world0 ''hello'')"
      and r = "fst (snd (synthesize_try (stub_platform None (piper_stub 1)) (engine0 (Finite 1))
                 voice0 world0 ''hello''))"
      and self' = "fst (snd (snd (synthesize_try (stub_platform None (piper_stub 1))
                 (engine0 (Finite 1)) voice0 world0 ''hello'')))"
      and w' = "snd (snd (snd (synthesize_try (stub_platform None (piper_stub 1))
                 (engine0 (Finite 1)) voice0 world0 ''hello'')))"]
    temp_file_cleanup [where self = "engine0 (Finite 1)" and v = voice0
      and P = "stub_platform None (piper_stub 0)"
      and w = "world0\<lparr>files := sidecar_fs\<lparr>remove_denied := {''/tmp/tmpk3v9.wav''}\<rparr>\<rparr>"
      and p = "''/tmp/tmpk3v9.wav''"
      and ?fs1.0 = "sidecar_fs\<lparr>nodes := (nodes sidecar_fs)(''/tmp/tmpk3v9.wav'' \<mapsto> File []),
                      remove_denied := {''/tmp/tmpk3v9.wav''}\<rparr>"
      and ?text = "''hello''"
      and p' = "fst (synthesize_try (stub_platform None (piper_stub 0)) (engine0 (Finite 1))
                 voice0 (world0\<lparr>files := sidecar_fs\<lparr>remove_denied := {''/tmp/tmpk3v9.wav''}\<rparr>\<rparr>) ''hello'')"
      and r = "fst (snd (synthesize_try (stub_platform None (piper_stub 0)) (engine0 (Finite 1))
                 voice0 (world0\<lparr>files := sidecar_fs\<lparr>remove_denied := {''/tmp/tmpk3v9.wav''}\<rparr>\<rparr>) ''hello''))"
      and self' = "fst (snd (snd (synthesize_try (stub_platform None (piper_stub 0))
                 (engine0 (Finite 1)) voice0 (world0\<lparr>files := sidecar_fs\<lparr>remove_denied := {''/tmp/tmpk3v9.wav''}\<rparr>\<rparr>) ''hello'')))"
      and w' = "snd (snd (snd (synthesize_try (stub_platform None (piper_stub 0))
                 (engine0 (Finite 1)) voice0 (world0\<lparr>files := sidecar_fs\<lparr>remove_denied := {''/tmp/tmpk3v9.wav''}\<rparr>\<rparr>) ''hello'')))"]
  by (simp add: stub_defs fs_defs synthesize_try_def)

section \<open>The voice descriptor\<close>

subsection \<open>What the lookup of the sample rate returns\<close>

lemma read_sample_rate_nested:
  assumes "map_of kvs ''audio'' = Some (JObj a)" and "map_of a ''sample_rate'' = Some x"
  shows "read_sample_rate P (JObj kvs) = and_then (py_int P x) (\<lambda>n. Inr (Some n))"
  using assms by (simp add: read_sample_rate_def and_then_def)

lemma read_sample_rate_top:
  assumes "map_of kvs ''audio'' = None \<or>
           (\<exists>au. map_of kvs ''audio'' = Some au \<and> py_in ''sample_rate'' au = Inr False)"
    and "map_of kvs ''sample_rate'' = Some x"
  shows "read_sample_rate P (JObj kvs) = and_then (py_int P x) (\<lambda>n. Inr (Some n))"
  using assms by (auto simp: read_sample_rate_def and_then_def)

lemma py_getitem_not_obj: "\<forall>a. au \<noteq> JObj a \<Longrightarrow> py_getitem au k = Inl TypeError"
  by (cases au) auto

lemma read_sample_rate_not_obj:
  assumes "\<forall>kvs. cd \<noteq> JObj kvs"
  shows "read_sample_rate P cd \<noteq> Inr (Some n)"
proof -
  have g: "py_getitem cd k = Inl TypeError" for k
    using assms by (rule py_getitem_not_obj)
  show ?thesis
    by (cases "py_in ''audio'' cd"; cases "py_in ''sample_rate'' cd")
       (auto simp: read_sample_rate_def and_then_def g)
qed

lemma read_sample_rate_audio_not_obj:
  assumes "map_of kvs ''audio'' = Some au" and "\<forall>a. au \<noteq> JObj a"
  shows "read_sample_rate P (JObj kvs) =
           (case py_in ''sample_rate'' au of
              Inl e \<Rightarrow> Inl e
            | Inr True \<Rightarrow> Inl TypeError
            | Inr False \<Rightarrow>
                (case map_of kvs ''sample_rate'' of
                   None \<Rightarrow> Inr None
                 | Some x \<Rightarrow> and_then (py_int P x) (\<lambda>n. Inr (Some n))))"
  using assms py_getitem_not_obj [of au "''sample_rate''"]
  by (auto simp: read_sample_rate_def and_then_def split: sum.splits option.splits)

lemma read_sample_rate_no_field:
  assumes "map_of kvs ''sample_rate'' = None"
    and "\<And>a. map_of kvs ''audio'' = Some (JObj a) \<Longrightarrow> map_of a ''sample_rate'' = None"
  shows "read_sample_rate P (JObj kvs) \<noteq> Inr (Some n)"
proof (cases "map_of kvs ''audio''")
  case None
  with assms(1) show ?thesis by (simp add: read_sample_rate_def and_then_def)
next
  case (Some au)
  show ?thesis
  proof (cases "\<exists>a. au = JObj a")
    case True
    then obtain a where "au = JObj a" ..
    with Some assms show ?thesis by (simp add: read_sample_rate_def and_then_def)
  next
    case False
    then have "\<forall>a. au \<noteq> JObj a" by simp
    from read_sample_rate_audio_not_obj [OF Some this] assms(1) show ?thesis
      by (auto split: sum.splits bool.splits)
  qed
qed

lemma read_sample_rate_top_refused:
  assumes "map_of kvs ''sample_rate'' = Some x" and "py_int P x = Inl e"
    and "\<And>a. map_of kvs ''audio'' = Some (JObj a) \<Longrightarrow> map_of a ''sample_rate'' = None"
  shows "read_sample_rate P (JObj kvs) \<noteq> Inr (Some n)"
proof (cases "map_of kvs ''audio''")
  case None
  with assms(1,2) show ?thesis by (simp add: read_sample_rate_def and_then_def)
next
  case (Some au)
  show ?thesis
  proof (cases "\<exists>a. au = JObj a")
    case True
    then obtain a where "au = JObj a" ..
    with Some assms show ?thesis by (simp add: read_sample_rate_def and_then_def)
  next
    case False
    then have "\<forall>a. au \<noteq> JObj a" by simp
    from read_sample_rate_audio_not_obj [OF Some this] assms(1,2) show ?thesis
      by (auto simp: and_then_def split: sum.splits bool.splits)
  qed
qed

lemma PiperVoice_init_eq:
  "PiperVoice_init P fs mf cf =
     Returned \<lparr>model_file = mf,
       config_file =
         (case cf of
            None \<Rightarrow> if isfile fs (mf @ ''.json'') then Some (mf @ ''.json'') else None
          | Some c \<Rightarrow> Some c),
       native_sample_rate =
         (case (case cf of
                  None \<Rightarrow> if isfile fs (mf @ ''.json'') then Some (mf @ ''.json'') else None
                | Some c \<Rightarrow> Some c) of
            None \<Rightarrow> 24000
          | Some c \<Rightarrow>
              if c \<noteq> [] \<and> exists_path fs c
              then (case load_config P fs c of Inr (Some n) \<Rightarrow> n | _ \<Rightarrow> 24000)
              else 24000)\<rparr>"
  by (auto simp: PiperVoice_init_def Let_def split: option.splits sum.splits)

subsection \<open>The sample rate of a config file\<close>

text \<open>
  C6, as amended. For every config file that is resolved (given explicitly, or the sidecar
  \<^verbatim>\<open>model.json\<close> found on disk), can be read and parses as a JSON object: if its
  \<^verbatim>\<open>audio\<close> entry is an object with a \<^verbatim>\<open>sample_rate\<close> field, the sample rate of the
  voice is that value coerced to integer, whatever the top level holds; otherwise, if the
  \<^verbatim>\<open>audio\<close> entry is absent, or is an object, a list or a string that does not contain
  \<^verbatim>\<open>sample_rate\<close>, and a top-level \<^verbatim>\<open>sample_rate\<close> is present, the sample rate is
  that value coerced to integer. In both cases \<open>x\<close> is the value and \<open>n\<close> is what
  \<^verbatim>\<open>int\<close> makes of it.
\<close>

theorem sample_rate_from_config:
  assumes "cf = Some c \<or> (cf = None \<and> c = mf @ ''.json'' \<and> isfile fs c)"
    and "c \<noteq> []"
    and "open_read fs c = Inr content"
    and "json_load P content = Inr (JObj kvs)"
    and "(\<exists>a. map_of kvs ''audio'' = Some (JObj a) \<and> map_of a ''sample_rate'' = Some x) \<or>
         ((map_of kvs ''audio'' = None \<or>
           (\<exists>au. map_of kvs ''audio'' = Some au \<and> py_in ''sample_rate'' au = Inr False)) \<and>
          map_of kvs ''sample_rate'' = Some x)"
    and "py_int P x = Inr n"
  shows "PiperVoice_init P fs mf cf =
           Returned \<lparr>model_file = mf, config_file = Some c, native_sample_rate = n\<rparr>"
proof -
  have ex: "exists_path fs c"
    using assms(3) by (auto simp: open_read_def exists_path_def split: option.splits)
  have "read_sample_rate P (JObj kvs) = and_then (py_int P x) (\<lambda>n. Inr (Some n))"
    using assms(5) read_sample_rate_nested [of kvs _ x P] read_sample_rate_top [of kvs x P]
    by blast
  then have "load_config P fs c = Inr (Some n)"
    using assms(3,4,6) by (simp add: load_config_def and_then_def)
  then show ?thesis
    using assms(1,2) ex by (auto simp: PiperVoice_init_eq)
qed

theorem sample_rate_from_config_witness:
  "PiperVoice_init
     (stub_platform (Some (JObj [(''audio'', JObj [(''sample_rate'', JInt 22050)]),
                                 (''sample_rate'', JInt 44100)])) idle)
     sidecar_fs ''en.onnx'' None =
     Returned \<lparr>model_file = ''en.onnx'', config_file = Some ''en.onnx.json'',
               native_sample_rate = 22050\<rparr> \<and>
   PiperVoice_init
     (stub_platform (Some (JObj [(''audio'', JObj [(''quality'', JStr ''medium'')]),
                                 (''sample_rate'', JStr ''22050'')])) idle)
     sidecar_fs ''en.onnx'' (Some ''en.onnx.json'') =
     Returned \<lparr>model_file = ''en.onnx'', config_file = Some ''en.onnx.json'',
               native_sample_rate = 22050\<rparr>"
  using sample_rate_from_config [of None "''en.onnx.json''" "''en.onnx''" sidecar_fs "''cfg''"
      "stub_platform (Some (JObj [(''audio'', JObj [(''sample_rate'', JInt 22050)]),
                                  (''sample_rate'', JInt 44100)])) idle"
      "[(''audio'', JObj [(''sample_rate'', JInt 22050)]), (''sample_rate'', JInt 44100)]"
      "JInt 22050" 22050]
    sample_rate_from_config [of "Some ''en.onnx.json''" "''en.onnx.json''" "''en.onnx''"
      sidecar_fs "''cfg''"
      "stub_platform (Some (JObj [(''audio'', JObj [(''quality'', JStr ''medium'')]),
                                  (''sample_rate'', JStr ''22050'')])) idle"
      "[(''audio'', JObj [(''quality'', JStr ''medium'')]), (''sample_rate'', JStr ''22050'')]"
      "JStr ''22050''" 22050]
  by (simp add: stub_platform_def sidecar_fs_def isfile_def open_read_def)

text \<open>
  The claim as stated fails on \<^verbatim>\<open>{"audio": null, "sample_rate": 22050}\<close>: the file is
  resolved and parses, it has no \<^verbatim>\<open>audio\<close> object with a \<^verbatim>\<open>sample_rate\<close> field, its
  top-level \<^verbatim>\<open>sample_rate\<close> coerces to 22050, and the voice keeps 24000, because the
  membership test on \<^verbatim>\<open>None\<close> raises \<^verbatim>\<open>TypeError\<close> inside the \<^verbatim>\<open>try\<close> block.
\<close>

theorem top_level_rate_lost_counterexample:
  "open_read sidecar_fs ''en.onnx.json'' = Inr ''cfg'' \<and>
   json_load (stub_platform (Some (JObj [(''audio'', JNull), (''sample_rate'', JInt 22050)])) idle)
     ''cfg'' = Inr (JObj [(''audio'', JNull), (''sample_rate'', JInt 22050)]) \<and>
   py_int (stub_platform (Some (JObj [(''audio'', JNull), (''sample_rate'', JInt 22050)])) idle)
     (JInt 22050) = Inr 22050 \<and>
   PiperVoice_init
     (stub_platform (Some (JObj [(''audio'', JNull), (''sample_rate'', JInt 22050)])) idle)
     sidecar_fs ''en.onnx'' None =
     Returned \<lparr>model_file = ''en.onnx'', config_file = Some ''en.onnx.json'',
               native_sample_rate = 24000\<rparr>"
  by (simp add: PiperVoice_init_def load_config_def read_sample_rate_def and_then_def
      stub_platform_def sidecar_fs_def isfile_def open_read_def exists_path_def Let_def)

subsection \<open>Construction never fails\<close>

text \<open>
  C7. For every model path, config argument, file system and behaviour of the parser,
  the construction of a \<^verbatim>\<open>PiperVoice\<close> returns a voice and never raises. The sample
  rate stays at the default 24000 whenever no config file is resolved or the resolved
  path is empty or missing; the file cannot be read or is not valid JSON; the parsed value
  has neither an \<^verbatim>\<open>audio\<close> object with a \<^verbatim>\<open>sample_rate\<close> field nor a top-level
  \<^verbatim>\<open>sample_rate\<close>; or \<^verbatim>\<open>int\<close> refuses the value of the field the lookup selects.
\<close>

theorem voice_construction_never_fails:
  "\<exists>pv. PiperVoice_init P fs mf cf = Returned pv \<and> model_file pv = mf \<and>
     ((config_file pv = None \<or>
       (\<exists>c. config_file pv = Some c \<and> (c = [] \<or> \<not> exists_path fs c)) \<or>
       (\<exists>c e. config_file pv = Some c \<and> open_read fs c = Inl e) \<or>
       (\<exists>c content e. config_file pv = Some c \<and> open_read fs c = Inr content \<and>
          json_load P content = Inl e) \<or>
       (\<exists>c content cd. config_file pv = Some c \<and> open_read fs c = Inr content \<and>
          json_load P content = Inr cd \<and>
          (\<forall>kvs. cd = JObj kvs \<longrightarrow>
             map_of kvs ''sample_rate'' = None \<and>
             (\<forall>a. map_of kvs ''audio'' = Some (JObj a) \<longrightarrow> map_of a ''sample_rate'' = None))) \<or>
       (\<exists>c content kvs x e. config_file pv = Some c \<and> open_read fs c = Inr content \<and>
          json_load P content = Inr (JObj kvs) \<and> py_int P x = Inl e \<and>
          ((\<exists>a. map_of kvs ''audio'' = Some (JObj a) \<and> map_of a ''sample_rate'' = Some x) \<or>
           (map_of kvs ''sample_rate'' = Some x \<and>
            (\<forall>a. map_of kvs ''audio'' = Some (JObj a) \<longrightarrow> map_of a ''sample_rate'' = None)))))
      \<longrightarrow> native_sample_rate pv = 24000)"
proof -
  define resolved where "resolved =
    (case cf of
       None \<Rightarrow> if isfile fs (mf @ ''.json'') then Some (mf @ ''.json'') else None
     | Some c \<Rightarrow> Some c)"
  define rate where "rate =
    (case resolved of
       None \<Rightarrow> (24000::int)
     | Some c \<Rightarrow>
         if c \<noteq> [] \<and> exists_path fs c
         then (case load_config P fs c of Inr (Some n) \<Rightarrow> n | _ \<Rightarrow> 24000)
         else 24000)"
  have init: "PiperVoice_init P fs mf cf =
      Returned \<lparr>model_file = mf, config_file = resolved, native_sample_rate = rate\<rparr>"
    unfolding resolved_def rate_def by (rule PiperVoice_init_eq)
  have keep: "rate = 24000" if "\<And>n. load_config P fs c \<noteq> Inr (Some n)" and "resolved = Some c"
    for c
    using that by (auto simp: rate_def split: sum.splits option.splits)
  have f1: "rate = 24000" if "resolved = None"
    using that by (simp add: rate_def)
  have f2: "rate = 24000" if "resolved = Some c" and "c = [] \<or> \<not> exists_path fs c" for c
    using that by (auto simp: rate_def)
  have f3: "rate = 24000" if "resolved = Some c" and "open_read fs c = Inl e" for c e
    using that by (intro keep [of c]) (simp_all add: load_config_def and_then_def)
  have f4: "rate = 24000"
    if "resolved = Some c" and "open_read fs c = Inr content" and "json_load P content = Inl e"
    for c content e
    using that by (intro keep [of c]) (simp_all add: load_config_def and_then_def)
  have f5: "rate = 24000"
    if r: "resolved = Some c" and o: "open_read fs c = Inr content"
      and j: "json_load P content = Inr cd"
      and nf: "\<forall>kvs. cd = JObj kvs \<longrightarrow>
             map_of kvs ''sample_rate'' = None \<and>
             (\<forall>a. map_of kvs ''audio'' = Some (JObj a) \<longrightarrow> map_of a ''sample_rate'' = None)"
    for c content cd
  proof (intro keep [of c])
    fix n
    have "read_sample_rate P cd \<noteq> Inr (Some n)"
    proof (cases "\<exists>kvs. cd = JObj kvs")
      case True
      then obtain kvs where cd: "cd = JObj kvs" ..
      with nf show ?thesis
        using read_sample_rate_no_field [of kvs P n] by simp
    next
      case False
      then show ?thesis
        using read_sample_rate_not_obj [of cd P n] by simp
    qed
    then show "load_config P fs c \<noteq> Inr (Some n)"
      using o j by (simp add: load_config_def and_then_def)
  qed (rule r)
  have f6: "rate = 24000"
    if r: "resolved = Some c" and o: "open_read fs c = Inr content"
      and j: "json_load P content = Inr (JObj kvs)" and i: "py_int P x = Inl e"
      and sel: "(\<exists>a. map_of kvs ''audio'' = Some (JObj a) \<and> map_of a ''sample_rate'' = Some x) \<or>
           (map_of kvs ''sample_rate'' = Some x \<and>
            (\<forall>a. map_of kvs ''audio'' = Some (JObj a) \<longrightarrow> map_of a ''sample_rate'' = None))"
    for c content kvs x e
  proof (intro keep [of c])
    fix n
    have "read_sample_rate P (JObj kvs) \<noteq> Inr (Some n)"
      using sel
    proof
      assume "\<exists>a. map_of kvs ''audio'' = Some (JObj a) \<and> map_of a ''sample_rate'' = Some x"
      then obtain a where "map_of kvs ''audio'' = Some (JObj a)" "map_of a ''sample_rate'' = Some x"
        by blast
      from read_sample_rate_nested [OF this, of P] i show ?thesis
        by (simp add: and_then_def)
    next
      assume "map_of kvs ''sample_rate'' = Some x \<and>
            (\<forall>a. map_of kvs ''audio'' = Some (JObj a) \<longrightarrow> map_of a ''sample_rate'' = None)"
      then show ?thesis
        using read_sample_rate_top_refused [of kvs x P e n] i by simp
    qed
    then show "load_config P fs c \<noteq> Inr (Some n)"
      using o j by (simp add: load_config_def and_then_def)
  qed (rule r)
  have key:
    "(resolved = None \<or>
       (\<exists>c. resolved = Some c \<and> (c = [] \<or> \<not> exists_path fs c)) \<or>
       (\<exists>c e. resolved = Some c \<and> open_read fs c = Inl e) \<or>
       (\<exists>c content e. resolved = Some c \<and> open_read fs c = Inr content \<and>
          json_load P content = Inl e) \<or>
       (\<exists>c content cd. resolved = Some c \<and> open_read fs c = Inr content \<and>
          json_load P content = Inr cd \<and>
          (\<forall>kvs. cd = JObj kvs \<longrightarrow>
             map_of kvs ''sample_rate'' = None \<and>
             (\<forall>a. map_of kvs ''audio'' = Some (JObj a) \<longrightarrow> map_of a ''sample_rate'' = None))) \<or>
       (\<exists>c content kvs x e. resolved = Some c \<and> open_read fs c = Inr content \<and>
          json_load P content = Inr (JObj kvs) \<and> py_int P x = Inl e \<and>
          ((\<exists>a. map_of kvs ''audio'' = Some (JObj a) \<and> map_of a ''sample_rate'' = Some x) \<or>
           (map_of kvs ''sample_rate'' = Some x \<and>
            (\<forall>a. map_of kvs ''audio'' = Some (JObj a) \<longrightarrow> map_of a ''sample_rate'' = None)))))
      \<longrightarrow> rate = 24000"
  proof (intro impI, elim disjE)
    assume "resolved = None"
    then show "rate = 24000" by (rule f1)
  next
    assume "\<exists>c. resolved = Some c \<and> (c = [] \<or> \<not> exists_path fs c)"
    then obtain c where "resolved = Some c" "c = [] \<or> \<not> exists_path fs c" by blast
    then show "rate = 24000" by (rule f2)
  next
    assume "\<exists>c e. resolved = Some c \<and> open_read fs c = Inl e"
    then obtain c e where "resolved = Some c" "open_read fs c = Inl e" by blast
    then show "rate = 24000" by (rule f3)
  next
    assume "\<exists>c content e. resolved = Some c \<and> open_read fs c = Inr content \<and>
          json_load P content = Inl e"
    then obtain c content e where "resolved = Some c" "open_read fs c = Inr content"
      "json_load P content = Inl e" by blast
    then show "rate = 24000" by (rule f4)
  next
    assume "\<exists>c content cd. resolved = Some c \<and> open_read fs c = Inr content \<and>
          json_load P content = Inr cd \<and>
          (\<forall>kvs. cd = JObj kvs \<longrightarrow>
             map_of kvs ''sample_rate'' = None \<and>
             (\<forall>a. map_of kvs ''audio'' = Some (JObj a) \<longrightarrow> map_of a ''sample_rate'' = None))"
    then obtain c content cd where "resolved = Some c" "open_read fs c = Inr content"
      "json_load P content = Inr cd"
      "\<forall>kvs. cd = JObj kvs \<longrightarrow>
             map_of kvs ''sample_rate'' = None \<and>
             (\<forall>a. map_of kvs ''audio'' = Some (JObj a) \<longrightarrow> map_of a ''sample_rate'' = None)"
      by (elim exE conjE)
    then show "rate = 24000" by (rule f5)
  next
    assume "\<exists>c content kvs x e. resolved = Some c \<and> open_read fs c = Inr content \<and>
          json_load P content = Inr (JObj kvs) \<and> py_int P x = Inl e \<and>
          ((\<exists>a. map_of kvs ''audio'' = Some (JObj a) \<and> map_of a ''sample_rate'' = Some x) \<or>
           (map_of kvs ''sample_rate'' = Some x \<and>
            (\<forall>a. map_of kvs ''audio'' = Some (JObj a) \<longrightarrow> map_of a ''sample_rate'' = None)))"
    then obtain c content kvs x e where "resolved = Some c" "open_read fs c = Inr content"
      "json_load P content = Inr (JObj kvs)" "py_int P x = Inl e"
      "(\<exists>a. map_of kvs ''audio'' = Some (JObj a) \<and> map_of a ''sample_rate'' = Some x) \<or>
           (map_of kvs ''sample_rate'' = Some x \<and>
            (\<forall>a. map_of kvs ''audio'' = Some (JObj a) \<longrightarrow> map_of a ''sample_rate'' = None))"
      by (elim exE conjE)
    then show "rate = 24000" by (rule f6)
  qed
  let ?pv = "\<lparr>model_file = mf, config_file = resolved, native_sample_rate = rate\<rparr>"
  have sel: "model_file ?pv = mf" "config_file ?pv = resolved" "native_sample_rate ?pv = rate"
    by simp_all
  show ?thesis
    unfolding init
  proof (intro exI [of _ ?pv] conjI)
    show "Returned ?pv = Returned ?pv" ..
    show "model_file ?pv = mf" by (rule sel)
    show "(config_file ?pv = None \<or>
       (\<exists>c. config_file ?pv = Some c \<and> (c = [] \<or> \<not> exists_path fs c)) \<or>
       (\<exists>c e. config_file ?pv = Some c \<and> open_read fs c = Inl e) \<or>
       (\<exists>c content e. config_file ?pv = Some c \<and> open_read fs c = Inr content \<and>
          json_load P content = Inl e) \<or>
       (\<exists>c content cd. config_file ?pv = Some c \<and> open_read fs c = Inr content \<and>
          json_load P content = Inr cd \<and>
          (\<forall>kvs. cd = JObj kvs \<longrightarrow>
             map_of kvs ''sample_rate'' = None \<and>
             (\<forall>a. map_of kvs ''audio'' = Some (JObj a) \<longrightarrow> map_of a ''sample_rate'' = None))) \<or>
       (\<exists>c content kvs x e. config_file ?pv = Some c \<and> open_read fs c = Inr content \<and>
          json_load P content = Inr (JObj kvs) \<and> py_int P x = Inl e \<and>
          ((\<exists>a. map_of kvs ''audio'' = Some (JObj a) \<and> map_of a ''sample_rate'' = Some x) \<or>
           (map_of kvs ''sample_rate'' = Some x \<and>
            (\<forall>a. map_of kvs ''audio'' = Some (JObj a) \<longrightarrow> map_of a ''sample_rate'' = None)))))
      \<longrightarrow> native_sample_rate ?pv = 24000"
      unfolding sel by (rule key)
  qed
qed

theorem voice_construction_never_fails_witness:
  "PiperVoice_init (stub_platform None idle) sidecar_fs ''en.onnx'' None =
     Returned \<lparr>model_file = ''en.onnx'', config_file = Some ''en.onnx.json'',
               native_sample_rate = 24000\<rparr> \<and>
   PiperVoice_init (stub_platform None idle) sidecar_fs ''en.onnx'' (Some ''nowhere.json'') =
     Returned \<lparr>model_file = ''en.onnx'', config_file = Some ''nowhere.json'',
               native_sample_rate = 24000\<rparr> \<and>
   PiperVoice_init
     (stub_platform (Some (JObj [(''audio'', JObj [(''quality'', JStr ''medium'')])])) idle)
     sidecar_fs ''en.onnx'' None =
     Returned \<lparr>model_file = ''en.onnx'', config_file = Some ''en.onnx.json'',
               native_sample_rate = 24000\<rparr> \<and>
   PiperVoice_init
     (stub_platform (Some (JObj [(''sample_rate'', JStr ''fast'')])) idle)
     sidecar_fs ''en.onnx'' None =
     Returned \<lparr>model_file = ''en.onnx'', config_file = Some ''en.onnx.json'',
               native_sample_rate = 24000\<rparr>"
  using voice_construction_never_fails [of "stub_platform None idle" sidecar_fs "''en.onnx''" None]
    voice_construction_never_fails [of "stub_platform None idle" sidecar_fs "''en.onnx''"
      "Some ''nowhere.json''"]
    voice_construction_never_fails [of
      "stub_platform (Some (JObj [(''audio'', JObj [(''quality'', JStr ''medium'')])])) idle"
      sidecar_fs "''en.onnx''" None]
    voice_construction_never_fails [of
      "stub_platform (Some (JObj [(''sample_rate'', JStr ''fast'')])) idle"
      sidecar_fs "''en.onnx''" None]
  by (simp add: PiperVoice_init_def load_config_def read_sample_rate_def and_then_def
      stub_platform_def sidecar_fs_def isfile_def open_read_def exists_path_def Let_def)

section \<open>Construction of the engine\<close>

text \<open>
  C10. When the engine is constructed without an executable path and \<^verbatim>\<open>PIPER_PATH\<close>
  is set to the empty string, the executable is the default name of the platform
  (\<^verbatim>\<open>piper.exe\<close> on Windows, \<^verbatim>\<open>piper\<close> elsewhere), never the empty string.
\<close>

theorem default_executable_on_empty_override:
  assumes "environ ''PIPER_PATH'' = Some []"
  shows "piper_path (PiperEngine_init environ os_name None v ls)
           = (if os_name = ''nt'' then ''piper.exe'' else ''piper'') \<and>
         piper_path (PiperEngine_init environ os_name None v ls) \<noteq> []"
  using assms by (simp add: PiperEngine_init_def)

theorem default_executable_on_empty_override_witness:
  "[''PIPER_PATH'' \<mapsto> []] ''PIPER_PATH'' = Some [] \<and>
   piper_path (PiperEngine_init [''PIPER_PATH'' \<mapsto> []] ''posix'' None None (Finite 1)) = ''piper'' \<and>
   piper_path (PiperEngine_init [''PIPER_PATH'' \<mapsto> []] ''nt'' None None (Finite 1)) = ''piper.exe''"
  using default_executable_on_empty_override [of "[''PIPER_PATH'' \<mapsto> []]" "''posix''" None "Finite 1"]
    default_executable_on_empty_override [of "[''PIPER_PATH'' \<mapsto> []]" "''nt''" None "Finite 1"]
  by simp

end
